theory Spec2Isabelle
  imports Main "HOL-Library.Word"
begin

section \<open>Coding-standard violation examples\<close>

text \<open>
  The repository holds five translation units of deliberately rule-violating C and C++
  code: \<^verbatim>\<open>src/c/misra_violations.c\<close>, \<^verbatim>\<open>src/c/cert_c_violations.c\<close>,
  \<^verbatim>\<open>src/cpp/autosar_violations.cpp\<close>, \<^verbatim>\<open>src/cpp/cert_cpp_violations.cpp\<close> and
  \<^verbatim>\<open>src/cpp/misra_cpp_violations.cpp\<close>. Each unit is a sequence of banner comments,
  one per rule, each followed by the construct that breaks the rule, and a closing
  \<^verbatim>\<open>main\<close>.

  Two things are modelled: the two functions whose results are computed values
  (\<^verbatim>\<open>misra_cpp_6_6_5\<close> and \<^verbatim>\<open>cert_ctr50_cpp\<close>), and the call structure of every
  unit (which construct stands under which banner, and which functions \<^verbatim>\<open>main\<close>
  calls).
\<close>

subsection \<open>Machine integers\<close>

text \<open>\<^verbatim>\<open>int\<close> is the 32-bit two's complement integer of the targets the Makefile
  builds for (gcc and g++); comparisons on it are signed.\<close>

type_synonym cpp_int = "32 word"

subsection \<open>\<^verbatim>\<open>misra_cpp_6_6_5\<close> (misra\_cpp\_violations.cpp, lines 72 to 80)\<close>

text \<open>
  \<^verbatim>\<open>
  int misra_cpp_6_6_5(int x) {
      if (x > 0) {
          return 1;  // Early return #1
      }
      if (x < 0) {
          return -1;  // Early return #2
      }
      return 0;  // Normal return
  }
  \<close>
  Each early return is a branch; the order of the tests is the source's.
\<close>

definition misra_cpp_6_6_5 :: "cpp_int \<Rightarrow> cpp_int" where
  "misra_cpp_6_6_5 x =
     (if 0 <s x then 1
      else if x <s 0 then - 1
      else 0)"

subsection \<open>\<^verbatim>\<open>cert_ctr50_cpp\<close> (cert\_cpp\_violations.cpp, lines 72 to 76)\<close>

text \<open>
  \<^verbatim>\<open>
  void cert_ctr50_cpp() {
      std::vector<int> vec = {1, 2, 3};
      int val = vec[5];  // Out-of-bounds access
      static_cast<void>(val);
  }
  \<close>
  \<^verbatim>\<open>std::vector::operator[]\<close> does no bounds check, and a read past the end has no
  defined result. The model makes the read total: \<open>vector_subscript\<close> answers
  \<open>None\<close> outside \<open>0..<size\<close>, and the function stops there.
\<close>

definition vector_subscript :: "'a list \<Rightarrow> nat \<Rightarrow> 'a option" where
  "vector_subscript v n = (if n < length v then Some (v ! n) else None)"

text \<open>The local \<^verbatim>\<open>vec\<close> as it is when the subscript is evaluated: nothing touches
  it between its initialisation and the read.\<close>

definition cert_ctr50_cpp_vec :: "cpp_int list" where
  "cert_ctr50_cpp_vec = [1, 2, 3]"

definition cert_ctr50_cpp :: "unit option" where
  "cert_ctr50_cpp =
     (let vec = cert_ctr50_cpp_vec in
      case vector_subscript vec 5 of
        None \<Rightarrow> None
      | Some val \<Rightarrow> Some ())"

subsection \<open>Call structure of the translation units\<close>

text \<open>
  Every unit is a sequence of rule banners. Under a banner stand one or more
  declarations at file scope: functions, objects, struct and class types. Each
  declaration is listed with
  \<^item> \<open>violating\<close>: it is named after the banner's rule, or its own text carries the
    comment that marks the violation (so \<^verbatim>\<open>bad_signal_handler\<close>, whose body holds
    \<^verbatim>\<open>printf\<close> with the comment "printf is not async-signal-safe", and
    \<^verbatim>\<open>process_by_value\<close>, whose signature holds the comment "Slicing: Derived -> Base",
    are violating; \<^verbatim>\<open>helper_returns_value\<close>, \<^verbatim>\<open>SimpleData\<close>, \<^verbatim>\<open>Base\<close>, \<^verbatim>\<open>Derived\<close>,
    \<^verbatim>\<open>shadow_var\<close> and \<^verbatim>\<open>outer_var\<close> only support the violation of another
    declaration);
  \<^item> \<open>relies_on\<close>: the declarations of the same unit, outside its own text, that it
    names (a called function, a registered handler, a type of a parameter or local) or,
    for the two identifier-hiding rules, that its local hides. Names of the C and C++
    standard libraries are not counted.
\<close>

datatype construct_kind = Function | GlobalObject | StructType | ClassType

record construct =
  symbol_name :: string
  kind :: construct_kind
  violating :: bool
  relies_on :: "string list"

record banner =
  rule_id :: string
  declarations :: "construct list"

text \<open>\<open>main_calls\<close> lists, in source order, the free functions that the body of
  \<^verbatim>\<open>main\<close> calls. A call that is commented out is not a call.\<close>

record translation_unit =
  file_name :: string
  banners :: "banner list"
  main_calls :: "string list"

definition viol :: "construct_kind \<Rightarrow> string \<Rightarrow> string list \<Rightarrow> construct" where
  "viol k s ds = \<lparr>symbol_name = s, kind = k, violating = True, relies_on = ds\<rparr>"

definition support :: "construct_kind \<Rightarrow> string \<Rightarrow> string list \<Rightarrow> construct" where
  "support k s ds = \<lparr>symbol_name = s, kind = k, violating = False, relies_on = ds\<rparr>"

text \<open>The common banner: one violating function that names no other declaration of
  its unit.\<close>

definition fn :: "string \<Rightarrow> string \<Rightarrow> banner" where
  "fn r s = \<lparr>rule_id = r, declarations = [viol Function s []]\<rparr>"

text \<open>\<^verbatim>\<open>src/c/misra_violations.c\<close>: twelve functions and, last before \<^verbatim>\<open>main\<close>, the
  object \<^verbatim>\<open>int misra_rule_8_7_global = 42;\<close> for Rule 8.7.\<close>

definition misra_violations :: translation_unit where
  "misra_violations = \<lparr>
     file_name = ''src/c/misra_violations.c'',
     banners =
       [fn ''Rule 2.2'' ''misra_rule_2_2'',
        fn ''Rule 8.4'' ''misra_rule_8_4_func'',
        fn ''Rule 10.1'' ''misra_rule_10_1'',
        fn ''Rule 10.3'' ''misra_rule_10_3'',
        fn ''Rule 11.3'' ''misra_rule_11_3'',
        fn ''Rule 12.1'' ''misra_rule_12_1'',
        fn ''Rule 14.4'' ''misra_rule_14_4'',
        fn ''Rule 15.6'' ''misra_rule_15_6'',
        fn ''Rule 17.7'' ''misra_rule_17_7'',
        fn ''Rule 21.3'' ''misra_rule_21_3'',
        fn ''Rule 21.6'' ''misra_rule_21_6'',
        fn ''Dir 4.6'' ''misra_dir_4_6'',
        \<lparr>rule_id = ''Rule 8.7'',
         declarations = [viol GlobalObject ''misra_rule_8_7_global'' []]\<rparr>],
     main_calls =
       [''misra_rule_2_2'', ''misra_rule_8_4_func'', ''misra_rule_10_1'',
        ''misra_rule_10_3'', ''misra_rule_11_3'', ''misra_rule_12_1'',
        ''misra_rule_14_4'', ''misra_rule_15_6'', ''misra_rule_17_7'',
        ''misra_rule_21_3'', ''misra_rule_21_6'', ''misra_dir_4_6'']\<rparr>"

text \<open>\<^verbatim>\<open>src/c/cert_c_violations.c\<close>: twelve functions under eleven banners. Under
  SIG30-C stand \<^verbatim>\<open>bad_signal_handler\<close>, which calls \<^verbatim>\<open>printf\<close>, and \<^verbatim>\<open>cert_sig30_c\<close>,
  whose body is \<^verbatim>\<open>signal(SIGINT, bad_signal_handler);\<close>.\<close>

definition cert_c_violations :: translation_unit where
  "cert_c_violations = \<lparr>
     file_name = ''src/c/cert_c_violations.c'',
     banners =
       [fn ''EXP30-C'' ''cert_exp30_c'',
        fn ''EXP33-C'' ''cert_exp33_c'',
        fn ''ARR30-C'' ''cert_arr30_c'',
        fn ''MEM30-C'' ''cert_mem30_c'',
        fn ''MEM35-C'' ''cert_mem35_c'',
        fn ''STR31-C'' ''cert_str31_c'',
        fn ''ERR33-C'' ''cert_err33_c'',
        \<lparr>rule_id = ''SIG30-C'',
         declarations =
           [viol Function ''bad_signal_handler'' [],
            viol Function ''cert_sig30_c'' [''bad_signal_handler'']]\<rparr>,
        fn ''MSC32-C'' ''cert_msc32_c'',
        fn ''INT31-C'' ''cert_int31_c'',
        fn ''DCL30-C'' ''cert_dcl30_c''],
     main_calls =
       [''cert_exp30_c'', ''cert_exp33_c'', ''cert_arr30_c'', ''cert_mem30_c'',
        ''cert_mem35_c'', ''cert_str31_c'', ''cert_err33_c'', ''cert_sig30_c'',
        ''cert_msc32_c'', ''cert_int31_c'', ''cert_dcl30_c'']\<rparr>"

text \<open>\<^verbatim>\<open>src/cpp/autosar_violations.cpp\<close>: fourteen banners. Under A0-1-2 stand
  \<^verbatim>\<open>helper_returns_value\<close> and \<^verbatim>\<open>autosar_a0_1_2\<close>, which calls it and drops the
  result; under A2-10-1 the object \<^verbatim>\<open>shadow_var\<close> and \<^verbatim>\<open>autosar_a2_10_1\<close>, whose
  local of the same name hides it; under A11-0-2 the struct
  \<^verbatim>\<open>autosar_a11_0_2_struct\<close>, of which \<^verbatim>\<open>main\<close> declares an object. The banner over
  \<^verbatim>\<open>main\<close> reads "entry point to call all violation functions"; the body has no
  call of \<^verbatim>\<open>autosar_a15_1_2\<close>.\<close>

definition autosar_violations :: translation_unit where
  "autosar_violations = \<lparr>
     file_name = ''src/cpp/autosar_violations.cpp'',
     banners =
       [fn ''A0-1-1'' ''autosar_a0_1_1'',
        \<lparr>rule_id = ''A0-1-2'',
         declarations =
           [support Function ''helper_returns_value'' [],
            viol Function ''autosar_a0_1_2'' [''helper_returns_value'']]\<rparr>,
        \<lparr>rule_id = ''A2-10-1'',
         declarations =
           [support GlobalObject ''shadow_var'' [],
            viol Function ''autosar_a2_10_1'' [''shadow_var'']]\<rparr>,
        fn ''A5-1-1'' ''autosar_a5_1_1'',
        fn ''A7-1-5'' ''autosar_a7_1_5'',
        \<lparr>rule_id = ''A11-0-2'',
         declarations = [viol StructType ''autosar_a11_0_2_struct'' []]\<rparr>,
        fn ''A15-1-2'' ''autosar_a15_1_2'',
        fn ''A18-1-1'' ''autosar_a18_1_1'',
        fn ''A18-5-1'' ''autosar_a18_5_1'',
        fn ''M5-0-3'' ''autosar_m5_0_3'',
        fn ''A5-2-2'' ''autosar_a5_2_2'',
        fn ''A3-9-1'' ''autosar_a3_9_1'',
        fn ''M6-4-1'' ''autosar_m6_4_1'',
        fn ''A8-4-7'' ''autosar_a8_4_7''],
     main_calls =
       [''autosar_a0_1_1'', ''autosar_a0_1_2'', ''autosar_a2_10_1'',
        ''autosar_a5_1_1'', ''autosar_a7_1_5'', ''autosar_a18_1_1'',
        ''autosar_a18_5_1'', ''autosar_m5_0_3'', ''autosar_a5_2_2'',
        ''autosar_a3_9_1'', ''autosar_m6_4_1'', ''autosar_a8_4_7'']\<rparr>"

text \<open>\<^verbatim>\<open>src/cpp/cert_cpp_violations.cpp\<close>: ten banners. Under ERR58-CPP stands the
  namespace-scope object \<^verbatim>\<open>global_str\<close>, whose initialiser is a lambda that throws;
  under OOP57-CPP the struct \<^verbatim>\<open>SimpleData\<close> and \<^verbatim>\<open>cert_oop57_cpp\<close>, which copies one
  with \<^verbatim>\<open>memcpy\<close>; under OOP51-CPP the classes \<^verbatim>\<open>Base\<close> and \<^verbatim>\<open>Derived\<close>,
  \<^verbatim>\<open>process_by_value(Base b)\<close> and \<^verbatim>\<open>cert_oop51_cpp\<close>, which passes a \<^verbatim>\<open>Derived\<close> to
  it. The first line of \<^verbatim>\<open>main\<close> is the comment
  \<^verbatim>\<open>// cert_err50_cpp();  // Would terminate -- commented for demo\<close>.\<close>

definition cert_cpp_violations :: translation_unit where
  "cert_cpp_violations = \<lparr>
     file_name = ''src/cpp/cert_cpp_violations.cpp'',
     banners =
       [fn ''ERR50-CPP'' ''cert_err50_cpp'',
        \<lparr>rule_id = ''ERR58-CPP'',
         declarations = [viol GlobalObject ''global_str'' []]\<rparr>,
        fn ''DCL50-CPP'' ''cert_dcl50_cpp'',
        \<lparr>rule_id = ''OOP57-CPP'',
         declarations =
           [support StructType ''SimpleData'' [],
            viol Function ''cert_oop57_cpp'' [''SimpleData'']]\<rparr>,
        fn ''EXP55-CPP'' ''cert_exp55_cpp'',
        fn ''CTR50-CPP'' ''cert_ctr50_cpp'',
        fn ''MEM52-CPP'' ''cert_mem52_cpp'',
        fn ''ERR61-CPP'' ''cert_err61_cpp'',
        fn ''MSC50-CPP'' ''cert_msc50_cpp'',
        \<lparr>rule_id = ''OOP51-CPP'',
         declarations =
           [support ClassType ''Base'' [],
            support ClassType ''Derived'' [''Base''],
            viol Function ''process_by_value'' [''Base''],
            viol Function ''cert_oop51_cpp'' [''Derived'', ''process_by_value'']]\<rparr>],
     main_calls =
       [''cert_dcl50_cpp'', ''cert_oop57_cpp'', ''cert_exp55_cpp'',
        ''cert_ctr50_cpp'', ''cert_mem52_cpp'', ''cert_err61_cpp'',
        ''cert_msc50_cpp'', ''cert_oop51_cpp'']\<rparr>"

text \<open>\<^verbatim>\<open>src/cpp/misra_cpp_violations.cpp\<close>: ten banners. Under 2-10-2 stand the object
  \<^verbatim>\<open>outer_var\<close> and \<^verbatim>\<open>misra_cpp_2_10_2\<close>, whose local of the same name hides it.\<close>

definition misra_cpp_violations :: translation_unit where
  "misra_cpp_violations = \<lparr>
     file_name = ''src/cpp/misra_cpp_violations.cpp'',
     banners =
       [fn ''0-1-1'' ''misra_cpp_0_1_1'',
        \<lparr>rule_id = ''2-10-2'',
         declarations =
           [support GlobalObject ''outer_var'' [],
            viol Function ''misra_cpp_2_10_2'' [''outer_var'']]\<rparr>,
        fn ''5-0-3'' ''misra_cpp_5_0_3'',
        fn ''5-2-4'' ''misra_cpp_5_2_4'',
        fn ''6-4-2'' ''misra_cpp_6_4_2'',
        fn ''6-6-5'' ''misra_cpp_6_6_5'',
        fn ''15-3-5'' ''misra_cpp_15_3_5'',
        fn ''18-0-1'' ''misra_cpp_18_0_1'',
        fn ''18-4-1'' ''misra_cpp_18_4_1'',
        fn ''27-0-1'' ''misra_cpp_27_0_1''],
     main_calls =
       [''misra_cpp_0_1_1'', ''misra_cpp_2_10_2'', ''misra_cpp_5_0_3'',
        ''misra_cpp_5_2_4'', ''misra_cpp_6_4_2'', ''misra_cpp_6_6_5'',
        ''misra_cpp_15_3_5'', ''misra_cpp_18_0_1'', ''misra_cpp_18_4_1'',
        ''misra_cpp_27_0_1'']\<rparr>"

definition repository :: "translation_unit list" where
  "repository =
     [misra_violations, cert_c_violations, autosar_violations,
      cert_cpp_violations, misra_cpp_violations]"

text \<open>All declarations of a unit in source order, and the violating ones among them.\<close>

definition constructs :: "translation_unit \<Rightarrow> construct list" where
  "constructs tu = concat (map declarations (banners tu))"

definition violating_constructs :: "translation_unit \<Rightarrow> construct list" where
  "violating_constructs tu = filter violating (constructs tu)"

definition violation_functions :: "translation_unit \<Rightarrow> string list" where
  "violation_functions tu =
     map symbol_name (filter (\<lambda>d. kind d = Function) (violating_constructs tu))"




text \<open>The violation functions that \<^verbatim>\<open>main\<close> does not call, and for a function
  \<open>f\<close> the functions that \<^verbatim>\<open>main\<close> does call and that name \<open>f\<close>.\<close>

definition uncalled :: "translation_unit \<Rightarrow> string list" where
  "uncalled tu = filter (\<lambda>f. f \<notin> set (main_calls tu)) (violation_functions tu)"



section \<open>Results\<close>

subsection \<open>\<^verbatim>\<open>misra_cpp_6_6_5\<close>\<close>

lemma misra_cpp_6_6_5_sgn: "sint (misra_cpp_6_6_5 x) = sgn (sint x)"
  by (simp add: misra_cpp_6_6_5_def word_sless_alt)

text \<open>
  C9. For every \<^verbatim>\<open>int\<close> \<open>x\<close>, \<^verbatim>\<open>misra_cpp_6_6_5(x)\<close> returns 1 if \<open>x > 0\<close>, returns -1
  if \<open>x < 0\<close>, and returns 0 if \<open>x == 0\<close>. The comparisons are the signed ones of
  the source, read through \<open>sint\<close>.
\<close>

theorem misra_cpp_6_6_5_cases:
  "(0 < sint x \<longrightarrow> misra_cpp_6_6_5 x = 1) \<and>
   (sint x < 0 \<longrightarrow> misra_cpp_6_6_5 x = - 1) \<and>
   (x = 0 \<longrightarrow> misra_cpp_6_6_5 x = 0)"
  by (simp add: misra_cpp_6_6_5_def word_sless_alt)

text \<open>The three cases at 5, at -3 and at 0.\<close>

theorem misra_cpp_6_6_5_cases_witness:
  "0 < sint (5 :: cpp_int) \<and> misra_cpp_6_6_5 5 = 1 \<and>
   sint (- 3 :: cpp_int) < 0 \<and> misra_cpp_6_6_5 (- 3) = - 1 \<and>
   misra_cpp_6_6_5 0 = 0"
  using misra_cpp_6_6_5_cases [of 5] misra_cpp_6_6_5_cases [of "- 3"]
    misra_cpp_6_6_5_cases [of 0]
  by simp

lemma misra_cpp_6_6_5_int_min: "misra_cpp_6_6_5 (- 2147483648) = - 1"
  by (simp add: misra_cpp_6_6_5_def word_sless_alt)

lemma misra_cpp_6_6_5_int_max: "misra_cpp_6_6_5 2147483647 = 1"
  by (simp add: misra_cpp_6_6_5_def word_sless_alt)

subsection \<open>\<^verbatim>\<open>cert_ctr50_cpp\<close>\<close>

text \<open>
  C10. In every call of \<^verbatim>\<open>cert_ctr50_cpp\<close> the vector \<^verbatim>\<open>vec\<close> has exactly 3 elements
  where index 5 is read, so \<^verbatim>\<open>vec[5]\<close> is out of bounds on every execution: the
  total subscript answers \<open>None\<close>, and so does the function. It takes no argument
  and reads no state, so there is one execution.
\<close>

theorem cert_ctr50_cpp_out_of_bounds:
  "length cert_ctr50_cpp_vec = 3 \<and>
   vector_subscript cert_ctr50_cpp_vec 5 = None \<and>
   cert_ctr50_cpp = None"
  by (simp add: cert_ctr50_cpp_def cert_ctr50_cpp_vec_def vector_subscript_def)

lemma vector_subscript_in_range:
  "vector_subscript cert_ctr50_cpp_vec 0 = Some 1 \<and>
   vector_subscript cert_ctr50_cpp_vec 1 = Some 2 \<and>
   vector_subscript cert_ctr50_cpp_vec 2 = Some 3 \<and>
   vector_subscript cert_ctr50_cpp_vec 3 = None"
  by (simp add: cert_ctr50_cpp_vec_def vector_subscript_def)

subsection \<open>Violations and \<^verbatim>\<open>main\<close>\<close>

lemma violation_functions_count:
  "map (length \<circ> violation_functions) repository = [12, 12, 13, 10, 10]"
  by code_simp

lemma main_calls_count:
  "map (length \<circ> main_calls) repository = [12, 11, 12, 8, 10]"
  by code_simp









text \<open>In every unit \<^verbatim>\<open>main\<close> calls violation functions of its own file only.\<close>

lemma main_calls_only_violation_functions:
  "map (\<lambda>tu. filter (\<lambda>f. f \<notin> set (violation_functions tu)) (main_calls tu))
     repository = [[], [], [], [], []]"
  by code_simp

text \<open>The \<^verbatim>\<open>main\<close> of autosar\_violations.cpp leaves one violation function out,
  against the banner above it.\<close>

lemma autosar_uncalled: "uncalled autosar_violations = [''autosar_a15_1_2'']"
  by code_simp

text \<open>Among all functions under rule banners, violating or not, the ones \<^verbatim>\<open>main\<close>
  does not call.\<close>

lemma functions_not_called_by_main:
  "map (\<lambda>tu. filter (\<lambda>f. f \<notin> set (main_calls tu))
          (map symbol_name (filter (\<lambda>d. kind d = Function) (constructs tu))))
     repository =
     [[], [''bad_signal_handler''], [''helper_returns_value'', ''autosar_a15_1_2''],
      [''cert_err50_cpp'', ''process_by_value''], []]"
  by code_simp

end
